theory Spec2Isabelle
  imports Main "HOL-Library.Word"
begin

section \<open>Box construction of the MP4 muxer (src/box.ts)\<close>

text \<open>
  A shallow embedding of \<^verbatim>\<open>src/box.ts\<close>. JavaScript numbers that the file treats as
  integers (ids, counts, sizes, offsets, timestamps) are \<^typ>\<open>int\<close>; a
  \<^verbatim>\<open>Uint8Array\<close> is a list of \<^typ>\<open>8 word\<close>; \<^verbatim>\<open>null\<close> and
  \<^verbatim>\<open>undefined\<close> are \<^term>\<open>None\<close>; a thrown \<^verbatim>\<open>TypeError\<close> is the
  left injection of a sum.
\<close>

subsection \<open>Nested number arrays and typed arrays\<close>

text \<open>\<^verbatim>\<open>type NestedNumberArray = (number | NestedNumberArray)[]\<close>: a value of that type
  is a list of \<^verbatim>\<open>nna\<close>.\<close>

datatype nna = Num int | Arr "nna list"

text \<open>\<^verbatim>\<open>Array.prototype.flat(depth)\<close>: an element that is an array is spliced in,
  flattened to one level less; at depth 0 it is kept as it is.\<close>

fun flat :: "nat \<Rightarrow> nna list \<Rightarrow> nna list" where
  "flat d [] = []"
| "flat d (Num n # xs) = Num n # flat d xs"
| "flat 0 (Arr ys # xs) = Arr ys # flat 0 xs"
| "flat (Suc d) (Arr ys # xs) = flat d ys @ flat (Suc d) xs"

text \<open>The conversion of one element by \<^verbatim>\<open>new Uint8Array(array)\<close>: a number is
  reduced modulo 256; an element that is still an array is first converted to a number
  through its string form, which gives 0 for the empty array, the value of the element for
  a one-element array, and NaN (stored as 0) for a longer one.\<close>

fun ToUint8 :: "nna \<Rightarrow> 8 word" where
  "ToUint8 (Num n) = word_of_int n"
| "ToUint8 (Arr []) = 0"
| "ToUint8 (Arr [x]) = ToUint8 x"
| "ToUint8 (Arr (x # y # zs)) = 0"

definition Uint8Array :: "nna list \<Rightarrow> 8 word list" where
  "Uint8Array xs = map ToUint8 xs"

text \<open>The spread \<^verbatim>\<open>...track.codecPrivate\<close> of a typed array into a number array.\<close>

definition spread :: "8 word list \<Rightarrow> nna list" where
  "spread bs = map (\<lambda>b. Num (uint b)) bs"

subsection \<open>Boxes\<close>

datatype Box = Box
  (type: string)
  (contents: "8 word list option")
  (children: "Box option list option")
  (size_box: "int option")
  (largeSize: "bool option")

definition box :: "string \<Rightarrow> nna list option \<Rightarrow> Box option list option \<Rightarrow> Box" where
  "box ty cs ch =
     Box ty (case cs of None \<Rightarrow> None | Some c \<Rightarrow> Some (Uint8Array (flat 10 c))) ch None None"

subsection \<open>Byte primitives of \<^verbatim>\<open>./misc\<close>\<close>

text \<open>Modelled from the spec: the module \<^verbatim>\<open>./misc\<close> is not part of the sources. The
  spec names its encoders as "big-endian unsigned/signed integer encoders for 1/2/3/4/8-byte
  widths; 16.16 and 8.8 fixed-point encoders; an ASCII/4-character tag encoder". Each returns
  the bytes of its argument, most significant first, as a number array; a value outside the
  width keeps its low bits (two's complement for a negative one).\<close>

definition u8 :: "int \<Rightarrow> nna" where
  "u8 v = Arr [Num (v mod 256)]"

definition u16 :: "int \<Rightarrow> nna" where
  "u16 v = Arr [Num (v div 256 mod 256), Num (v mod 256)]"

definition i16 :: "int \<Rightarrow> nna" where
  "i16 v = Arr [Num (v div 256 mod 256), Num (v mod 256)]"

definition u24 :: "int \<Rightarrow> nna" where
  "u24 v = Arr [Num (v div 65536 mod 256), Num (v div 256 mod 256), Num (v mod 256)]"

definition u32 :: "int \<Rightarrow> nna" where
  "u32 v = Arr [Num (v div 16777216 mod 256), Num (v div 65536 mod 256),
                Num (v div 256 mod 256), Num (v mod 256)]"

definition u64 :: "int \<Rightarrow> nna" where
  "u64 v = Arr [Num (v div 72057594037927936 mod 256), Num (v div 281474976710656 mod 256),
                Num (v div 1099511627776 mod 256), Num (v div 4294967296 mod 256),
                Num (v div 16777216 mod 256), Num (v div 65536 mod 256),
                Num (v div 256 mod 256), Num (v mod 256)]"

definition fixed_8_8 :: "int \<Rightarrow> nna" where
  "fixed_8_8 v = i16 (256 * v)"

definition fixed_16_16 :: "int \<Rightarrow> nna" where
  "fixed_16_16 v = u32 (65536 * v)"

definition ascii :: "string \<Rightarrow> nna" where
  "ascii text = Arr (map (\<lambda>c. Num (of_char c)) text)"

text \<open>\<^verbatim>\<open>Array(n).fill(0)\<close>.\<close>

definition zeros :: "nat \<Rightarrow> nna" where
  "zeros n = Arr (replicate n (Num 0))"

subsection \<open>Full boxes\<close>

definition fullBox ::
  "string \<Rightarrow> int \<Rightarrow> int \<Rightarrow> nna list option \<Rightarrow> Box option list option \<Rightarrow> Box" where
  "fullBox ty version flags cs ch =
     box ty (Some [u8 version, u24 flags, Arr (case cs of None \<Rightarrow> [] | Some c \<Rightarrow> c)]) ch"

subsection \<open>File type, media data and free space\<close>

definition ftyp :: "bool \<Rightarrow> Box" where
  "ftyp holdsHevc =
     (if holdsHevc then box ''ftyp'' (Some [
        ascii ''isom'',
        u32 0,
        ascii ''iso4'',
        ascii ''hvc1''
      ]) None
      else box ''ftyp'' (Some [
        ascii ''isom'',
        u32 0,
        ascii ''isom'',
        ascii ''avc1'',
        ascii ''mp41''
      ]) None)"

definition mdat :: "bool \<Rightarrow> Box" where
  "mdat reserveLargeSize = Box ''mdat'' None None None (Some reserveLargeSize)"

definition free :: "int \<Rightarrow> Box" where
  "free sz = Box ''free'' None None (Some sz) None"

subsection \<open>Tracks\<close>

text \<open>Modelled from the spec: the declarations of \<^verbatim>\<open>Track\<close>, \<^verbatim>\<open>VideoTrack\<close>
  and \<^verbatim>\<open>AudioTrack\<close> are in \<^verbatim>\<open>./muxer\<close>, which is not part of the sources. The
  fields are those of the spec's track snapshot that \<^verbatim>\<open>box.ts\<close> reads. A track is
  parametric in its \<^verbatim>\<open>info\<close>: a \<^verbatim>\<open>Track\<close> carries either variant, a
  \<^verbatim>\<open>VideoTrack\<close> the video one and an \<^verbatim>\<open>AudioTrack\<close> the audio one.\<close>

datatype SampleType = key | delta

record Sample =
  timestamp :: int
  duration :: int
  size_sample :: int
  type :: SampleType

record TimeToSample =
  sampleCount :: int
  sampleDelta :: int

record ChunkRun =
  firstChunk :: int
  samplesPerChunk :: int

record Chunk =
  offset :: int

datatype VideoCodec = avc | hevc | vp9 | av1

datatype AudioCodec = aac | opus

record VideoInfo =
  width :: int
  height :: int
  rotation :: int
  codec :: VideoCodec

record AudioInfo =
  numberOfChannels :: int
  sampleRate :: int
  codec :: AudioCodec

datatype Info = video VideoInfo | audio AudioInfo

record 'i Track =
  id_track :: int
  info :: 'i
  timescale :: int
  codecPrivate :: "8 word list option"
  samples :: "Sample list"
  timeToSampleTable :: "TimeToSample list"
  compactlyCodedChunkTable :: "ChunkRun list"
  finalizedChunks :: "Chunk list"

text \<open>The casts \<^verbatim>\<open>track as VideoTrack\<close> and \<^verbatim>\<open>track as AudioTrack\<close>, made once the
  variant of \<^verbatim>\<open>info\<close> is known.\<close>

definition as_track :: "'j \<Rightarrow> 'i Track \<Rightarrow> 'j Track" where
  "as_track i t = \<lparr>id_track = id_track t, info = i, timescale = timescale t,
     codecPrivate = codecPrivate t, samples = samples t,
     timeToSampleTable = timeToSampleTable t,
     compactlyCodedChunkTable = compactlyCodedChunkTable t,
     finalizedChunks = finalizedChunks t\<rparr>"

datatype error = TypeError

subsection \<open>Movie header\<close>

text \<open>\<^verbatim>\<open>Math.max(x, ...xs)\<close>.\<close>

definition Math_max :: "int \<Rightarrow> int list \<Rightarrow> int" where
  "Math_max x xs = fold max xs x"

text \<open>\<^verbatim>\<open>intoTimescale\<close>, \<^verbatim>\<open>GLOBAL_TIMESCALE\<close> and the bytes
  \<^verbatim>\<open>matrixToBytes(IDENTITY_MATRIX)\<close> are defined outside the sources and are parameters
  here. \<^verbatim>\<open>last\<close> of \<^verbatim>\<open>./misc\<close> is applied to the sample lists that the filter has found
  non-empty, where it is the last element. \<^verbatim>\<open>Math.max\<close> of no argument is
  \<^verbatim>\<open>-Infinity\<close>, and so is \<^verbatim>\<open>-Infinity + 1\<close>: \<^term>\<open>None\<close> stands for it, and
  a 32-bit store writes it as 0.\<close>

definition mvhd ::
  "(int \<Rightarrow> int \<Rightarrow> int) \<Rightarrow> int \<Rightarrow> nna \<Rightarrow> int \<Rightarrow> ('i, 'z) Track_scheme list \<Rightarrow> Box" where
  "mvhd intoTimescale GLOBAL_TIMESCALE identityMatrixBytes creationTime tracks =
     (let duration = intoTimescale (Math_max 0
            (map (\<lambda>x. Sample.timestamp (List.last (samples x))
                     + Sample.duration (List.last (samples x)))
               (filter (\<lambda>x. length (samples x) > 0) tracks)))
            GLOBAL_TIMESCALE;
          nextTrackId = (case map id_track tracks of
              [] \<Rightarrow> None
            | i # ids \<Rightarrow> Some (Math_max i ids + 1))
      in fullBox ''mvhd'' 0 0 (Some [
        u32 creationTime,
        u32 creationTime,
        u32 GLOBAL_TIMESCALE,
        u32 duration,
        fixed_16_16 1,
        fixed_8_8 1,
        zeros 10,
        identityMatrixBytes,
        zeros 24,
        (case nextTrackId of None \<Rightarrow> u32 0 | Some n \<Rightarrow> u32 n)
      ]) None)"

subsection \<open>Codec configuration boxes\<close>

definition avcC :: "('i, 'z) Track_scheme \<Rightarrow> Box option" where
  "avcC track = (case codecPrivate track of
       None \<Rightarrow> None
     | Some cp \<Rightarrow> Some (box ''avcC'' (Some (spread cp)) None))"

definition hvcC :: "('i, 'z) Track_scheme \<Rightarrow> Box option" where
  "hvcC track = (case codecPrivate track of
       None \<Rightarrow> None
     | Some cp \<Rightarrow> Some (box ''hvcC'' (Some (spread cp)) None))"

definition vpcC :: "('i, 'z) Track_scheme \<Rightarrow> Box option" where
  "vpcC track = (case codecPrivate track of
       None \<Rightarrow> None
     | Some cp \<Rightarrow> Some (box ''vpcC'' (Some (spread cp)) None))"

definition av1C :: "('i, 'z) Track_scheme \<Rightarrow> Box option" where
  "av1C track = (case codecPrivate track of
       None \<Rightarrow> None
     | Some cp \<Rightarrow> Some (box ''av1C'' (Some (spread cp)) None))"

text \<open>Reading \<^verbatim>\<open>track.codecPrivate.byteLength\<close> of an absent \<^verbatim>\<open>codecPrivate\<close> throws
  a \<^verbatim>\<open>TypeError\<close>.\<close>

definition esds :: "('i, 'z) Track_scheme \<Rightarrow> error + Box" where
  "esds track = (case codecPrivate track of
       None \<Rightarrow> Inl TypeError
     | Some cp \<Rightarrow> Inr (fullBox ''esds'' 0 0 (Some ([
         u32 0x03808080,
         u8 (0x20 + int (length cp)),
         u16 1,
         u8 0x00,
         u32 0x04808080,
         u8 (0x12 + int (length cp)),
         u8 0x40,
         u8 0x15,
         u24 0,
         u32 0x0001FC17,
         u32 0x0001FC17,
         u32 0x05808080,
         u8 (int (length cp))]
         @ spread cp @ [
         u32 0x06808080,
         u8 0x01,
         u8 0x02
       ])) None))"

definition dOps :: "(AudioInfo, 'z) Track_scheme \<Rightarrow> Box" where
  "dOps track = box ''dOps'' (Some [
     u8 0,
     u8 (numberOfChannels (info track)),
     u16 3840,
     u32 (sampleRate (info track)),
     fixed_8_8 0,
     u8 0
   ]) None"

fun VIDEO_CODEC_TO_BOX_NAME :: "VideoCodec \<Rightarrow> string" where
  "VIDEO_CODEC_TO_BOX_NAME avc = ''avc1''"
| "VIDEO_CODEC_TO_BOX_NAME hevc = ''hvc1''"
| "VIDEO_CODEC_TO_BOX_NAME vp9 = ''vp09''"
| "VIDEO_CODEC_TO_BOX_NAME av1 = ''av01''"

fun VIDEO_CODEC_TO_CONFIGURATION_BOX :: "VideoCodec \<Rightarrow> VideoInfo Track \<Rightarrow> Box option" where
  "VIDEO_CODEC_TO_CONFIGURATION_BOX avc = avcC"
| "VIDEO_CODEC_TO_CONFIGURATION_BOX hevc = hvcC"
| "VIDEO_CODEC_TO_CONFIGURATION_BOX vp9 = vpcC"
| "VIDEO_CODEC_TO_CONFIGURATION_BOX av1 = av1C"

fun AUDIO_CODEC_TO_BOX_NAME :: "AudioCodec \<Rightarrow> string" where
  "AUDIO_CODEC_TO_BOX_NAME aac = ''mp4a''"
| "AUDIO_CODEC_TO_BOX_NAME opus = ''Opus''"

fun AUDIO_CODEC_TO_CONFIGURATION_BOX :: "AudioCodec \<Rightarrow> AudioInfo Track \<Rightarrow> error + Box" where
  "AUDIO_CODEC_TO_CONFIGURATION_BOX aac = esds"
| "AUDIO_CODEC_TO_CONFIGURATION_BOX opus = (\<lambda>track. Inr (dOps track))"

subsection \<open>Sample descriptions\<close>

definition videoSampleDescription :: "string \<Rightarrow> VideoInfo Track \<Rightarrow> Box" where
  "videoSampleDescription compressionType track = box compressionType (Some [
     zeros 6,
     u16 1,
     u16 0,
     u16 0,
     zeros 12,
     u16 (width (info track)),
     u16 (height (info track)),
     u32 0x00480000,
     u32 0x00480000,
     u32 0,
     u16 1,
     zeros 32,
     u16 0x0018,
     i16 0xffff
   ]) (Some [
     VIDEO_CODEC_TO_CONFIGURATION_BOX (VideoInfo.codec (info track)) track
   ])"

definition soundSampleDescription :: "string \<Rightarrow> AudioInfo Track \<Rightarrow> error + Box" where
  "soundSampleDescription compressionType track =
     (case AUDIO_CODEC_TO_CONFIGURATION_BOX (AudioInfo.codec (info track)) track of
        Inl e \<Rightarrow> Inl e
      | Inr config \<Rightarrow> Inr (box compressionType (Some [
          zeros 6,
          u16 1,
          u16 0,
          u16 0,
          u32 0,
          u16 (numberOfChannels (info track)),
          u16 16,
          u16 0,
          u16 0,
          fixed_16_16 (sampleRate (info track))
        ]) (Some [
          Some config
        ])))"

definition stsd :: "Info Track \<Rightarrow> error + Box" where
  "stsd track =
     (case (case info track of
              video vi \<Rightarrow> Inr (videoSampleDescription
                  (VIDEO_CODEC_TO_BOX_NAME (VideoInfo.codec vi)) (as_track vi track))
            | audio ai \<Rightarrow> soundSampleDescription
                  (AUDIO_CODEC_TO_BOX_NAME (AudioInfo.codec ai)) (as_track ai track)) of
        Inl e \<Rightarrow> Inl e
      | Inr description \<Rightarrow> Inr (fullBox ''stsd'' 0 0 (Some [
          u32 1
        ]) (Some [
          Some description
        ])))"

subsection \<open>Sample table\<close>

definition stts :: "('i, 'z) Track_scheme \<Rightarrow> Box" where
  "stts track = fullBox ''stts'' 0 0 (Some [
     u32 (int (length (timeToSampleTable track))),
     Arr (map (\<lambda>x. Arr [
       u32 (sampleCount x),
       u32 (sampleDelta x)
     ]) (timeToSampleTable track))
   ]) None"

text \<open>\<^verbatim>\<open>null\<close> when every sample is a key frame; \<^verbatim>\<open>samples.entries()\<close> pairs each
  sample with its index from 0.\<close>

definition stss :: "('i, 'z) Track_scheme \<Rightarrow> Box option" where
  "stss track =
     (if list_all (\<lambda>x. Sample.type x = key) (samples track) then None
      else let keySamples =
             filter (\<lambda>(index, sample). Sample.type sample = key) (enumerate 0 (samples track))
           in Some (fullBox ''stss'' 0 0 (Some [
             u32 (int (length keySamples)),
             Arr (map (\<lambda>(index, sample). u32 (int index + 1)) keySamples)
           ]) None))"

definition stsc :: "('i, 'z) Track_scheme \<Rightarrow> Box" where
  "stsc track = fullBox ''stsc'' 0 0 (Some [
     u32 (int (length (compactlyCodedChunkTable track))),
     Arr (map (\<lambda>x. Arr [
       u32 (firstChunk x),
       u32 (samplesPerChunk x),
       u32 1
     ]) (compactlyCodedChunkTable track))
   ]) None"

definition stsz :: "('i, 'z) Track_scheme \<Rightarrow> Box" where
  "stsz track = fullBox ''stsz'' 0 0 (Some [
     u32 0,
     u32 (int (length (samples track))),
     Arr (map (\<lambda>x. u32 (size_sample x)) (samples track))
   ]) None"

text \<open>\<^verbatim>\<open>last\<close> of \<^verbatim>\<open>./misc\<close> is reached only when the list of finalized chunks is
  not empty.\<close>

definition stco :: "('i, 'z) Track_scheme \<Rightarrow> Box" where
  "stco track =
     (if length (finalizedChunks track) > 0
         \<and> offset (List.last (finalizedChunks track)) \<ge> 2 ^ 32
      then fullBox ''co64'' 0 0 (Some [
        u32 (int (length (finalizedChunks track))),
        Arr (map (\<lambda>x. u64 (offset x)) (finalizedChunks track))
      ]) None
      else fullBox ''stco'' 0 0 (Some [
        u32 (int (length (finalizedChunks track))),
        Arr (map (\<lambda>x. u32 (offset x)) (finalizedChunks track))
      ]) None)"

definition stbl :: "Info Track \<Rightarrow> error + Box" where
  "stbl track =
     (case stsd track of
        Inl e \<Rightarrow> Inl e
      | Inr description \<Rightarrow> Inr (box ''stbl'' None (Some [
          Some description,
          Some (stts track),
          stss track,
          Some (stsc track),
          Some (stsz track),
          Some (stco track)
        ])))"

subsection \<open>Reading a number array as bytes\<close>

text \<open>The numbers of a nested array in reading order, and whether an array is flat after
  \<^term>\<open>d\<close> levels of flattening.\<close>

fun leaves :: "nna \<Rightarrow> int list" where
  "leaves (Num n) = [n]"
| "leaves (Arr ys) = concat (map leaves ys)"

fun fits :: "nat \<Rightarrow> nna \<Rightarrow> bool" where
  "fits d (Num n) = True"
| "fits 0 (Arr ys) = False"
| "fits (Suc d) (Arr ys) = list_all (fits d) ys"

definition bytes :: "nna list \<Rightarrow> 8 word list" where
  "bytes xs = map word_of_int (concat (map leaves xs))"

text \<open>The big-endian encoding of an integer in \<^term>\<open>n\<close> bytes (its low \<open>8 * n\<close> bits), written
  independently of the encoders above, and the value of a byte string read as a big-endian
  unsigned integer.\<close>

fun be :: "nat \<Rightarrow> int \<Rightarrow> 8 word list" where
  "be 0 v = []"
| "be (Suc n) v = be n (v div 256) @ [word_of_int v]"

definition be_val :: "8 word list \<Rightarrow> nat" where
  "be_val bs = foldl (\<lambda>a b. 256 * a + unat b) 0 bs"

subsection \<open>Reading the movie header\<close>

text \<open>The end times of the tracks that have a sample: the timestamp of the last sample plus
  its duration.\<close>

definition track_ends :: "('i, 'z) Track_scheme list \<Rightarrow> int set" where
  "track_ends tracks =
     set (map (\<lambda>x. Sample.timestamp (List.last (samples x))
                   + Sample.duration (List.last (samples x)))
            (filter (\<lambda>x. samples x \<noteq> []) tracks))"

subsection \<open>Example inputs\<close>

text \<open>Concrete tracks and samples for the examples below, and an instance of the rescaling
  parameter: a time in seconds times the ticks per second.\<close>

definition example_track ::
  "int \<Rightarrow> 'i \<Rightarrow> 8 word list option \<Rightarrow> Sample list \<Rightarrow> Chunk list \<Rightarrow> 'i Track" where
  "example_track n i cp ss cs = \<lparr>id_track = n, info = i, timescale = 1000, codecPrivate = cp,
     samples = ss, timeToSampleTable = [], compactlyCodedChunkTable = [],
     finalizedChunks = cs\<rparr>"

definition sample_at :: "int \<Rightarrow> int \<Rightarrow> SampleType \<Rightarrow> Sample" where
  "sample_at t d k = \<lparr>timestamp = t, duration = d, size_sample = 100, type = k\<rparr>"

definition avc_info :: VideoInfo where
  "avc_info = \<lparr>width = 640, height = 480, rotation = 0, codec = avc\<rparr>"

definition aac_info :: AudioInfo where
  "aac_info = \<lparr>numberOfChannels = 2, sampleRate = 44100, codec = aac\<rparr>"

definition opus_info :: AudioInfo where
  "opus_info = \<lparr>numberOfChannels = 2, sampleRate = 48000, codec = opus\<rparr>"

definition rescale :: "int \<Rightarrow> int \<Rightarrow> int" where
  "rescale t s = t * s"

section \<open>Properties\<close>

subsection \<open>Flattening\<close>

lemma flat_fits:
  "list_all (fits d) xs \<Longrightarrow> flat d xs = map Num (concat (map leaves xs))"
proof (induction d xs rule: flat.induct)
  case (1 d)
  show ?case by simp
next
  case (2 d n xs)
  then show ?case by simp
next
  case (3 ys xs)
  then show ?case by simp
next
  case (4 d ys xs)
  then show ?case by simp
qed

lemma Uint8Array_Num: "Uint8Array (map Num ns) = map word_of_int ns"
  by (simp add: Uint8Array_def)

lemma box_fits:
  "list_all (fits 10) c \<Longrightarrow> box ty (Some c) ch = Box ty (Some (bytes c)) ch None None"
  by (simp add: box_def flat_fits Uint8Array_Num bytes_def)

lemma fits_numeral:
  "fits (numeral k) (Arr ys) = list_all (fits (pred_numeral k)) ys"
  by (simp add: numeral_eq_Suc)

lemma fits_u8: "0 < d \<Longrightarrow> fits d (u8 v)"
  by (cases d) (simp_all add: u8_def)

lemma fits_u16: "0 < d \<Longrightarrow> fits d (u16 v)"
  by (cases d) (simp_all add: u16_def)

lemma fits_i16: "0 < d \<Longrightarrow> fits d (i16 v)"
  by (cases d) (simp_all add: i16_def)

lemma fits_u24: "0 < d \<Longrightarrow> fits d (u24 v)"
  by (cases d) (simp_all add: u24_def)

lemma fits_u32: "0 < d \<Longrightarrow> fits d (u32 v)"
  by (cases d) (simp_all add: u32_def)

lemma fits_u64: "0 < d \<Longrightarrow> fits d (u64 v)"
  by (cases d) (simp_all add: u64_def)

lemma fits_fixed_8_8: "0 < d \<Longrightarrow> fits d (fixed_8_8 v)"
  by (simp add: fixed_8_8_def fits_i16)

lemma fits_fixed_16_16: "0 < d \<Longrightarrow> fits d (fixed_16_16 v)"
  by (simp add: fixed_16_16_def fits_u32)

lemma fits_ascii: "0 < d \<Longrightarrow> fits d (ascii s)"
  by (cases d) (simp_all add: ascii_def list_all_iff)

lemma fits_zeros: "0 < d \<Longrightarrow> fits d (zeros n)"
  by (cases d) (simp_all add: zeros_def list_all_iff)

lemmas fits_prims =
  fits_numeral fits_u8 fits_u16 fits_i16 fits_u24 fits_u32 fits_u64
  fits_fixed_8_8 fits_fixed_16_16 fits_ascii fits_zeros

lemma leaves_ascii: "leaves (ascii s) = map of_char s"
  by (simp add: ascii_def comp_def)

lemma leaves_zeros: "leaves (zeros n) = replicate n 0"
  by (induction n) (simp_all add: zeros_def)

subsection \<open>Big-endian bytes\<close>

lemma length_be: "length (be n v) = n"
  by (induction n arbitrary: v) simp_all

lemma be_val_snoc: "be_val (bs @ [b]) = 256 * be_val bs + unat b"
  by (simp add: be_val_def)

lemma be_val_be: "be_val (be n v) = nat (v mod 256 ^ n)"
proof (induction n arbitrary: v)
  case 0
  show ?case by (simp add: be_val_def)
next
  case (Suc n)
  have "unat (word_of_int v :: 8 word) = nat (v mod 256)"
    by (simp add: unat_eq_nat_uint uint_word_of_int)
  moreover have "v mod (256 * 256 ^ n) = 256 * (v div 256 mod 256 ^ n) + v mod 256"
    by (rule zmod_zmult2_eq) simp
  ultimately show ?case
    using Suc [of "v div 256"]
    by (simp add: be_val_snoc nat_add_distrib nat_mult_distrib)
qed

lemma w8_mod: "(word_of_int (v mod 256) :: 8 word) = word_of_int v"
  by (simp add: word_of_int_eq_iff take_bit_eq_mod)

lemma div_div_numeral: "(v::int) div numeral k div numeral l = v div (numeral k * numeral l)"
  by (rule zdiv_zmult2_eq [symmetric]) simp

lemma be_2: "be 2 v = [word_of_int (v div 256), word_of_int v]"
  by (simp add: numeral_2_eq_2)

lemma be_3: "be 3 v = [word_of_int (v div 65536), word_of_int (v div 256), word_of_int v]"
  by (simp add: numeral_3_eq_3 div_div_numeral)

lemma be_4: "be 4 v = [word_of_int (v div 16777216), word_of_int (v div 65536),
    word_of_int (v div 256), word_of_int v]"
  by (simp add: eval_nat_numeral div_div_numeral)

lemma be_8: "be 8 v = be 4 (v div 4294967296) @ be 4 v"
  by (simp add: eval_nat_numeral div_div_numeral)

lemma bytes_u8: "bytes [u8 v] = be 1 v"
  by (simp add: bytes_def u8_def w8_mod)

lemma bytes_u16: "bytes [u16 v] = be 2 v"
  by (simp add: bytes_def u16_def w8_mod be_2)

lemma bytes_u24: "bytes [u24 v] = be 3 v"
  by (simp add: bytes_def u24_def w8_mod be_3)

lemma bytes_u32: "bytes [u32 v] = be 4 v"
  by (simp add: bytes_def u32_def w8_mod be_4)

lemma bytes_u64: "bytes [u64 v] = be 8 v"
  by (simp add: bytes_def u64_def w8_mod be_8 be_4 div_div_numeral)

lemma flat_append: "flat d (xs @ ys) = flat d xs @ flat d ys"
  by (induction d xs rule: flat.induct) simp_all

lemma Uint8Array_append: "Uint8Array (xs @ ys) = Uint8Array xs @ Uint8Array ys"
  by (simp add: Uint8Array_def)

lemma bytes_append: "bytes (xs @ ys) = bytes xs @ bytes ys"
  by (simp add: bytes_def)

lemma Uint8Array_flat_fits: "list_all (fits d) cs \<Longrightarrow> Uint8Array (flat d cs) = bytes cs"
  by (simp add: flat_fits Uint8Array_Num bytes_def)

lemma fullBox_Some:
  "fullBox ty v f (Some cs) ch =
     Box ty (Some (be 1 v @ be 3 f @ Uint8Array (flat 9 cs))) ch None None"
proof -
  have "flat 10 [u8 v, u24 f, Arr cs] = map Num (leaves (u8 v)) @ map Num (leaves (u24 f)) @ flat 9 cs"
    by (simp add: u8_def u24_def numeral_eq_Suc)
  then show ?thesis
    by (simp add: fullBox_def box_def Uint8Array_def u8_def u24_def w8_mod be_3)
qed

subsection \<open>Contents of the sample table boxes\<close>

lemma bytes_Nil: "bytes [] = []"
  by (simp add: bytes_def)

lemma bytes_Cons2: "bytes (x # y # ys) = bytes [x] @ bytes (y # ys)"
  by (simp add: bytes_def)

lemma bytes_Arr: "bytes [Arr ys] = bytes ys"
  by (simp add: bytes_def)

lemma bytes_map: "bytes (map f xs) = concat (map (\<lambda>x. bytes [f x]) xs)"
  by (induction xs) (simp_all add: bytes_def)

lemma fits_map: "list_all (fits d) (map f xs) = list_all (\<lambda>x. fits d (f x)) xs"
  by (simp add: list_all_iff)

lemma list_all_True: "list_all (\<lambda>x. True) xs"
  by (simp add: list_all_iff)

lemma be_4_0: "be 4 0 = [0, 0, 0, 0]"
  by (simp add: be_4)

lemma be_4_1: "be 4 1 = [0, 0, 0, 1]"
  by (simp add: be_4)

lemmas box_bytes =
  fullBox_Some Uint8Array_flat_fits fits_prims fits_map list_all_True
  bytes_Cons2 bytes_Arr bytes_map bytes_Nil
  bytes_u8 bytes_u16 bytes_u24 bytes_u32 bytes_u64

lemma stts_bytes:
  "stts track = Box ''stts'' (Some ([0, 0, 0, 0]
       @ be 4 (int (length (timeToSampleTable track)))
       @ concat (map (\<lambda>x. be 4 (sampleCount x) @ be 4 (sampleDelta x))
           (timeToSampleTable track))))
     None None None"
  by (simp add: stts_def box_bytes be_3)

lemma stsc_bytes:
  "stsc track = Box ''stsc'' (Some ([0, 0, 0, 0]
       @ be 4 (int (length (compactlyCodedChunkTable track)))
       @ concat (map (\<lambda>x. be 4 (firstChunk x) @ be 4 (samplesPerChunk x) @ [0, 0, 0, 1])
           (compactlyCodedChunkTable track))))
     None None None"
  by (simp add: stsc_def box_bytes be_3 be_4_1)

lemma stco_bytes:
  "stco track =
    (if finalizedChunks track \<noteq> [] \<and> 2 ^ 32 \<le> offset (List.last (finalizedChunks track))
     then Box ''co64'' (Some ([0, 0, 0, 0]
       @ be 4 (int (length (finalizedChunks track)))
       @ concat (map (\<lambda>x. be 8 (offset x)) (finalizedChunks track))))
       None None None
     else Box ''stco'' (Some ([0, 0, 0, 0]
       @ be 4 (int (length (finalizedChunks track)))
       @ concat (map (\<lambda>x. be 4 (offset x)) (finalizedChunks track))))
       None None None)"
  by (simp add: stco_def box_bytes be_3)

lemma stsz_bytes:
  "stsz track = Box ''stsz'' (Some ([0, 0, 0, 0, 0, 0, 0, 0]
       @ be 4 (int (length (samples track)))
       @ concat (map (\<lambda>x. be 4 (size_sample x)) (samples track))))
     None None None"
  by (simp add: stsz_def box_bytes be_3 be_4_0)

subsection \<open>Sync samples\<close>

lemma zip_upt_nth: "zip [0..<length xs] xs = map (\<lambda>i. (i, xs ! i)) [0..<length xs]"
  by (rule nth_equalityI) simp_all

lemma key_entries:
  "map fst (filter (\<lambda>(index, sample). P sample) (enumerate 0 xs))
     = filter (\<lambda>i. P (xs ! i)) [0..<length xs]"
  by (simp add: enumerate_eq_zip zip_upt_nth filter_map comp_def)

lemma length_filter_nth:
  "length (filter (\<lambda>i. P (xs ! i)) [0..<length xs]) = length (filter P xs)"
proof -
  have "filter P xs = filter P (map (\<lambda>i. xs ! i) [0..<length xs])"
    by (simp add: map_nth)
  also have "\<dots> = map (\<lambda>i. xs ! i) (filter (\<lambda>i. P (xs ! i)) [0..<length xs])"
    by (simp add: filter_map comp_def)
  finally show ?thesis by simp
qed

lemma key_entries_map:
  "map (\<lambda>(index, sample). f index) (filter (\<lambda>(index, sample). P sample) (enumerate 0 xs))
     = map f (filter (\<lambda>i. P (xs ! i)) [0..<length xs])"
proof -
  have "map (\<lambda>(index, sample). f index)
        (filter (\<lambda>(index, sample). P sample) (enumerate 0 xs))
      = map f (map fst (filter (\<lambda>(index, sample). P sample) (enumerate 0 xs)))"
    by (simp add: case_prod_beta comp_def)
  also have "\<dots> = map f (filter (\<lambda>i. P (xs ! i)) [0..<length xs])"
    by (simp only: key_entries)
  finally show ?thesis .
qed

lemma stss_bytes:
  "stss track =
     (if list_all (\<lambda>x. Sample.type x = key) (samples track) then None
      else Some (Box ''stss'' (Some ([0, 0, 0, 0]
        @ be 4 (int (length (filter (\<lambda>x. Sample.type x = key) (samples track))))
        @ concat (map (\<lambda>i. be 4 (int i + 1))
            (filter (\<lambda>i. Sample.type (samples track ! i) = key) [0..<length (samples track)]))))
        None None None))"
proof -
  let ?ks = "filter (\<lambda>(index, sample). Sample.type sample = key) (enumerate 0 (samples track))"
  let ?is = "filter (\<lambda>i. Sample.type (samples track ! i) = key) [0..<length (samples track)]"
  have m: "map (\<lambda>(index, sample). u32 (int index + 1)) ?ks = map (\<lambda>i. u32 (int i + 1)) ?is"
    by (rule key_entries_map)
  have "length ?ks = length (map fst ?ks)" by simp
  also have "\<dots> = length ?is" by (simp only: key_entries)
  also have "\<dots> = length (filter (\<lambda>x. Sample.type x = key) (samples track))"
    by (rule length_filter_nth)
  finally have l: "length ?ks = length (filter (\<lambda>x. Sample.type x = key) (samples track))" .
  show ?thesis
    by (simp add: stss_def Let_def m l box_bytes be_3)
qed

subsection \<open>Boxes with a byte payload\<close>

lemma type_box: "Box.type (box ty cs ch) = ty"
  by (simp add: box_def)

lemma type_fullBox: "Box.type (fullBox ty v f cs ch) = ty"
  by (simp add: fullBox_def type_box)

lemma children_box: "children (box ty cs ch) = ch"
  by (simp add: box_def)

lemma flat_Num: "flat d (map Num ns) = map Num ns"
  by (induction ns) simp_all

lemma Uint8Array_spread: "Uint8Array (flat d (spread cp)) = cp"
proof -
  have "spread cp = map Num (map uint cp)"
    by (simp add: spread_def)
  then have "Uint8Array (flat d (spread cp)) = map word_of_int (map uint cp)"
    by (simp only: flat_Num Uint8Array_Num)
  then show ?thesis by (simp add: comp_def)
qed

lemma config_box:
  "box ty (Some (spread cp)) None = Box ty (Some cp) None None None"
  by (simp add: box_def Uint8Array_spread)

lemma bytes_i16: "bytes [i16 v] = be 2 v"
  by (simp add: bytes_def i16_def w8_mod be_2)

lemma bytes_fixed_8_8: "bytes [fixed_8_8 v] = be 2 (256 * v)"
  by (simp add: fixed_8_8_def bytes_i16)

lemma bytes_fixed_16_16: "bytes [fixed_16_16 v] = be 4 (65536 * v)"
  by (simp add: fixed_16_16_def bytes_u32)

lemma bytes_zeros: "bytes [zeros n] = replicate n 0"
  by (simp add: bytes_def leaves_zeros)

lemma bytes_spread: "bytes (spread cp) = cp"
  by (simp add: bytes_def spread_def comp_def)

lemma fits_spread: "list_all (fits d) (spread cp)"
  by (simp add: spread_def list_all_iff)

lemma esds_bytes:
  assumes "codecPrivate track = Some cp"
  shows "esds track = Inr (Box ''esds''
     (Some ([0, 0, 0, 0]
        @ [0x03, 0x80, 0x80, 0x80] @ [0x20 + of_nat (length cp)] @ [0, 1] @ [0]
        @ [0x04, 0x80, 0x80, 0x80] @ [0x12 + of_nat (length cp)] @ [0x40] @ [0x15] @ [0, 0, 0]
        @ [0, 1, 0xFC, 0x17] @ [0, 1, 0xFC, 0x17]
        @ [0x05, 0x80, 0x80, 0x80] @ [of_nat (length cp)] @ cp
        @ [0x06, 0x80, 0x80, 0x80] @ [0x01] @ [0x02]))
     None None None)"
proof -
  let ?pre = "[u32 0x03808080, u8 (0x20 + int (length cp)), u16 1, u8 0x00, u32 0x04808080,
      u8 (0x12 + int (length cp)), u8 0x40, u8 0x15, u24 0, u32 0x0001FC17, u32 0x0001FC17,
      u32 0x05808080, u8 (int (length cp))]"
  let ?post = "[u32 0x06808080, u8 0x01, u8 0x02]"
  have f: "list_all (fits 9) (?pre @ spread cp @ ?post)"
    by (simp add: fits_prims fits_spread)
  have "Uint8Array (flat 9 (?pre @ spread cp @ ?post)) = bytes ?pre @ cp @ bytes ?post"
    by (simp only: Uint8Array_flat_fits [OF f] bytes_append bytes_spread)
  moreover have "bytes ?pre = [0x03, 0x80, 0x80, 0x80] @ [0x20 + of_nat (length cp)] @ [0, 1] @ [0]
        @ [0x04, 0x80, 0x80, 0x80] @ [0x12 + of_nat (length cp)] @ [0x40] @ [0x15] @ [0, 0, 0]
        @ [0, 1, 0xFC, 0x17] @ [0, 1, 0xFC, 0x17]
        @ [0x05, 0x80, 0x80, 0x80] @ [of_nat (length cp)]"
    by (simp add: bytes_Cons2 bytes_u8 bytes_u16 bytes_u24 bytes_u32 be_2 be_3 be_4)
  moreover have "bytes ?post = [0x06, 0x80, 0x80, 0x80] @ [0x01] @ [0x02]"
    by (simp add: bytes_Cons2 bytes_u8 bytes_u32 be_4)
  ultimately show ?thesis
    using assms by (simp add: esds_def fullBox_Some be_3)
qed

subsection \<open>Movie header\<close>

lemma Math_max_Max: "Math_max x xs = Max (insert x (set xs))"
  by (simp add: Math_max_def Max.set_eq_fold [symmetric])

lemma be_Suc_0: "be (Suc 0) v = [word_of_int v]"
  by simp

lemma flat_Cons: "flat d (x # y # ys) = flat d [x] @ flat d (y # ys)"
  using flat_append [of d "[x]" "y # ys"] by simp

lemma Uint8Array_flat_Cons_fits:
  "fits d x \<Longrightarrow> Uint8Array (flat d (x # xs)) = bytes [x] @ Uint8Array (flat d xs)"
proof -
  assume "fits d x"
  then have "Uint8Array (flat d [x]) = bytes [x]"
    by (simp add: Uint8Array_flat_fits)
  moreover have "flat d (x # xs) = flat d [x] @ flat d xs"
    using flat_append [of d "[x]" xs] by simp
  ultimately show ?thesis by (simp add: Uint8Array_append)
qed

lemma Uint8Array_flat_Cons:
  "Uint8Array (flat d (x # y # ys)) = Uint8Array (flat d [x]) @ Uint8Array (flat d (y # ys))"
  by (simp only: flat_Cons Uint8Array_append)

lemma mvhd_bytes:
  "mvhd intoTimescale GLOBAL_TIMESCALE identityMatrixBytes creationTime tracks =
     Box ''mvhd'' (Some ([0, 0, 0, 0]
       @ be 4 creationTime @ be 4 creationTime @ be 4 GLOBAL_TIMESCALE
       @ be 4 (intoTimescale (Max (insert 0 (track_ends tracks))) GLOBAL_TIMESCALE)
       @ [0, 1, 0, 0] @ [1, 0] @ replicate 10 0
       @ Uint8Array (flat 9 [identityMatrixBytes])
       @ replicate 24 0
       @ be 4 (if tracks = [] then 0 else Max (id_track ` set tracks) + 1)))
     None None None"
proof -
  have e: "set (map (\<lambda>x. Sample.timestamp (List.last (samples x))
                     + Sample.duration (List.last (samples x)))
               (filter (\<lambda>x. length (samples x) > 0) tracks)) = track_ends tracks"
    by (simp add: track_ends_def)
  have n: "(case (case map id_track tracks of [] \<Rightarrow> None
                   | i # ids \<Rightarrow> Some (Max (insert i (set ids)) + 1)) of
             None \<Rightarrow> u32 0 | Some n \<Rightarrow> u32 n)
           = u32 (if tracks = [] then 0 else Max (id_track ` set tracks) + 1)"
  proof (cases tracks)
    case Nil
    then show ?thesis by simp
  next
    case (Cons t ts)
    then show ?thesis by simp
  qed
  have t: "Uint8Array (flat 9 [identityMatrixBytes, zeros 24, u])
      = Uint8Array (flat 9 [identityMatrixBytes]) @ replicate 24 0 @ bytes [u]" if "fits 9 u" for u
    using that
    by (simp add: Uint8Array_flat_Cons [of 9 identityMatrixBytes] Uint8Array_flat_fits
        fits_prims bytes_Cons2 bytes_zeros)
  have "mvhd intoTimescale GLOBAL_TIMESCALE identityMatrixBytes creationTime tracks =
      fullBox ''mvhd'' 0 0 (Some [
        u32 creationTime,
        u32 creationTime,
        u32 GLOBAL_TIMESCALE,
        u32 (intoTimescale (Max (insert 0 (track_ends tracks))) GLOBAL_TIMESCALE),
        fixed_16_16 1,
        fixed_8_8 1,
        zeros 10,
        identityMatrixBytes,
        zeros 24,
        u32 (if tracks = [] then 0 else Max (id_track ` set tracks) + 1)
      ]) None"
    by (simp only: mvhd_def Let_def Math_max_Max e n)
  also have "\<dots> = Box ''mvhd'' (Some ([0, 0, 0, 0]
       @ be 4 creationTime @ be 4 creationTime @ be 4 GLOBAL_TIMESCALE
       @ be 4 (intoTimescale (Max (insert 0 (track_ends tracks))) GLOBAL_TIMESCALE)
       @ [0, 1, 0, 0] @ [1, 0] @ replicate 10 0
       @ Uint8Array (flat 9 [identityMatrixBytes])
       @ replicate 24 0
       @ be 4 (if tracks = [] then 0 else Max (id_track ` set tracks) + 1)))
     None None None"
    by (simp add: fullBox_Some Uint8Array_flat_Cons_fits fits_prims t bytes_u32
        bytes_fixed_16_16 bytes_fixed_8_8 bytes_zeros be_Suc_0 be_2 be_3 be_4 [of 65536]
        del: be.simps)
  finally show ?thesis .
qed


lemma field_at_16: "length a = 16 \<Longrightarrow> length b = 4 \<Longrightarrow> take 4 (drop 16 (a @ b @ c)) = b"
  by simp

lemma mvhd_contents:
  "contents (mvhd intoTimescale GLOBAL_TIMESCALE identityMatrixBytes creationTime tracks) =
     Some (([0, 0, 0, 0] @ be 4 creationTime @ be 4 creationTime @ be 4 GLOBAL_TIMESCALE)
       @ be 4 (intoTimescale (Max (insert 0 (track_ends tracks))) GLOBAL_TIMESCALE)
       @ ([0, 1, 0, 0] @ [1, 0] @ replicate 10 0
         @ Uint8Array (flat 9 [identityMatrixBytes])
         @ replicate 24 0
         @ be 4 (if tracks = [] then 0 else Max (id_track ` set tracks) + 1)))"
  by (simp only: mvhd_bytes Box.sel append_assoc)


subsection \<open>Chunk offsets\<close>

lemma sorted_last_Max:
  fixes xs :: "int list"
  shows "sorted xs \<Longrightarrow> xs \<noteq> [] \<Longrightarrow> List.last xs = Max (set xs)"
proof (induction xs)
  case Nil
  then show ?case by simp
next
  case (Cons x xs)
  show ?case
  proof (cases "xs = []")
    case True
    then show ?thesis by simp
  next
    case False
    with Cons have ih: "List.last xs = Max (set xs)" by simp
    from False have "Max (set xs) \<in> set xs" by simp
    with Cons.prems have "x \<le> Max (set xs)" by auto
    with False ih show ?thesis by (simp add: max_def)
  qed
qed

subsection \<open>File type box\<close>

text \<open>
  C7. For either value of \<^verbatim>\<open>holdsHevc\<close> the file-type box has type \<^verbatim>\<open>ftyp\<close>, no
  children, and as its whole content the major brand \<^verbatim>\<open>isom\<close>, the four zero bytes of
  minor version 0 and then the compatible brands: \<^verbatim>\<open>iso4\<close>, \<^verbatim>\<open>hvc1\<close> when
  \<^verbatim>\<open>holdsHevc\<close> is true, and \<^verbatim>\<open>isom\<close>, \<^verbatim>\<open>avc1\<close>, \<^verbatim>\<open>mp41\<close> when it is false.
\<close>

theorem ftyp_content:
  "ftyp True = Box ''ftyp''
     (Some (map of_char ''isom'' @ [0, 0, 0, 0] @ map of_char ''iso4'' @ map of_char ''hvc1''))
     None None None
   \<and> ftyp False = Box ''ftyp''
     (Some (map of_char ''isom'' @ [0, 0, 0, 0] @ map of_char ''isom'' @ map of_char ''avc1''
            @ map of_char ''mp41''))
     None None None"
  by (simp add: ftyp_def box_fits fits_prims bytes_def leaves_ascii u32_def)

subsection \<open>Helper facts for the claims\<close>

lemma stsd_type: "stsd track = Inr description \<Longrightarrow> Box.type description = ''stsd''"
  by (auto simp add: stsd_def type_fullBox split: sum.splits)

lemma stsd_video: "info track = video vi \<Longrightarrow> \<exists>description. stsd track = Inr description"
  by (simp add: stsd_def)

lemma videoSampleDescription_children:
  "children (videoSampleDescription compressionType track) =
     Some [case codecPrivate track of
             None \<Rightarrow> None
           | Some cp \<Rightarrow> Some (Box
               (case VideoInfo.codec (info track) of
                  avc \<Rightarrow> ''avcC'' | hevc \<Rightarrow> ''hvcC'' | vp9 \<Rightarrow> ''vpcC'' | av1 \<Rightarrow> ''av1C'')
               (Some cp) None None None)]"
  by (cases "VideoInfo.codec (info track)"; cases "codecPrivate track")
     (simp_all add: videoSampleDescription_def children_box avcC_def hvcC_def vpcC_def av1C_def
        config_box)

lemma dOps_bytes:
  "dOps track = Box ''dOps''
     (Some (be 1 0 @ be 1 (numberOfChannels (info track)) @ be 2 3840
            @ be 4 (sampleRate (info track)) @ be 2 0 @ be 1 0))
     None None None"
  by (simp add: dOps_def box_fits fits_prims bytes_Cons2 bytes_u8 bytes_u16 bytes_u32
      bytes_fixed_8_8 del: be.simps)

lemma mvhd_duration_field:
  "map_option (take 4 \<circ> drop 16)
       (contents (mvhd intoTimescale GLOBAL_TIMESCALE identityMatrixBytes creationTime tracks))
     = Some (be 4 (intoTimescale (Max (insert 0 (track_ends tracks))) GLOBAL_TIMESCALE))"
proof -
  let ?a = "[0, 0, 0, 0] @ be 4 creationTime @ be 4 creationTime @ be 4 GLOBAL_TIMESCALE"
  let ?d = "be 4 (intoTimescale (Max (insert 0 (track_ends tracks))) GLOBAL_TIMESCALE)"
  let ?c = "[0, 1, 0, 0] @ [1, 0] @ replicate 10 0
         @ Uint8Array (flat 9 [identityMatrixBytes])
         @ replicate 24 0
         @ be 4 (if tracks = [] then 0 else Max (id_track ` set tracks) + 1)"
  have c: "contents (mvhd intoTimescale GLOBAL_TIMESCALE identityMatrixBytes creationTime tracks)
      = Some (?a @ ?d @ ?c)"
    by (rule mvhd_contents)
  have f: "take 4 (drop 16 (?a @ ?d @ ?c)) = ?d"
    by (rule field_at_16) (simp_all add: length_be del: be.simps)
  show ?thesis
    by (simp only: c option.map comp_apply f)
qed


lemma map_option_SomeD: "map_option f x = Some y \<Longrightarrow> \<exists>cs. x = Some cs \<and> f cs = y"
  by (cases x) simp_all

subsection \<open>Chunk offset box\<close>

text \<open>
  C1, as amended. The chunk-offset box is a function of \<^verbatim>\<open>finalizedChunks\<close> alone and the
  width is decided by the \<^emph>\<open>last\<close> finalized chunk: when the list is not empty and the
  offset of its last chunk is at least \<open>2^32\<close> the box is \<^verbatim>\<open>co64\<close> with one 8-byte offset
  per chunk, otherwise it is \<^verbatim>\<open>stco\<close> with one 4-byte offset per chunk. In both cases the
  entry count is the 4-byte encoding of the number of finalized chunks and all entries have
  one width. When the offsets are in non-decreasing order the last offset is the maximum.
\<close>

theorem stco_last_offset:
  "stco track =
    (if finalizedChunks track \<noteq> [] \<and> 2 ^ 32 \<le> offset (List.last (finalizedChunks track))
     then Box ''co64'' (Some ([0, 0, 0, 0]
       @ be 4 (int (length (finalizedChunks track)))
       @ concat (map (\<lambda>x. be 8 (offset x)) (finalizedChunks track))))
       None None None
     else Box ''stco'' (Some ([0, 0, 0, 0]
       @ be 4 (int (length (finalizedChunks track)))
       @ concat (map (\<lambda>x. be 4 (offset x)) (finalizedChunks track))))
       None None None)
   \<and> (finalizedChunks track \<noteq> [] \<and> sorted (map offset (finalizedChunks track))
        \<longrightarrow> offset (List.last (finalizedChunks track))
          = Max (set (map offset (finalizedChunks track))))"
proof (rule conjI)
  show "stco track =
    (if finalizedChunks track \<noteq> [] \<and> 2 ^ 32 \<le> offset (List.last (finalizedChunks track))
     then Box ''co64'' (Some ([0, 0, 0, 0]
       @ be 4 (int (length (finalizedChunks track)))
       @ concat (map (\<lambda>x. be 8 (offset x)) (finalizedChunks track))))
       None None None
     else Box ''stco'' (Some ([0, 0, 0, 0]
       @ be 4 (int (length (finalizedChunks track)))
       @ concat (map (\<lambda>x. be 4 (offset x)) (finalizedChunks track))))
       None None None)"
    by (rule stco_bytes)
next
  show "finalizedChunks track \<noteq> [] \<and> sorted (map offset (finalizedChunks track))
        \<longrightarrow> offset (List.last (finalizedChunks track))
          = Max (set (map offset (finalizedChunks track)))"
  proof
    assume a: "finalizedChunks track \<noteq> [] \<and> sorted (map offset (finalizedChunks track))"
    let ?os = "map offset (finalizedChunks track)"
    from a have ne: "?os \<noteq> []" and so: "sorted ?os" by simp_all
    have "List.last ?os = Max (set ?os)"
      using so ne by (rule sorted_last_Max)
    then show "offset (List.last (finalizedChunks track)) = Max (set ?os)"
      using a by (simp add: last_map)
  qed
qed

text \<open>Two chunks in file order, the second beyond 4 GiB: a \<^verbatim>\<open>co64\<close> box with two 8-byte
  entries, and the last offset is the largest.\<close>

theorem stco_last_offset_witness:
  "stco (example_track 1 () None [] [\<lparr>offset = 48\<rparr>, \<lparr>offset = 4294967296\<rparr>]) =
     Box ''co64'' (Some [0, 0, 0, 0, 0, 0, 0, 2,
                         0, 0, 0, 0, 0, 0, 0, 48,
                         0, 0, 0, 1, 0, 0, 0, 0]) None None None
   \<and> offset (List.last (finalizedChunks
         (example_track 1 () None [] [\<lparr>offset = 48\<rparr>, \<lparr>offset = 4294967296\<rparr>])))
     = Max (set (map offset (finalizedChunks
         (example_track 1 () None [] [\<lparr>offset = 48\<rparr>, \<lparr>offset = 4294967296\<rparr>]))))"
  using stco_last_offset [of "example_track 1 () None [] [\<lparr>offset = 48\<rparr>, \<lparr>offset = 4294967296\<rparr>]"]
  by (simp add: example_track_def be_4 be_8)

text \<open>The claim as stated, with the maximum offset, fails when the offsets are not in
  order: with a first chunk at \<open>2^32\<close> and a last chunk at 0 the maximum is \<open>2^32\<close>, yet
  the box is \<^verbatim>\<open>stco\<close> with 4-byte entries (the first offset is stored as 0).\<close>

theorem stco_max_counterexample:
  "2 ^ 32 \<le> Max (set (map offset (finalizedChunks
       (example_track 1 () None [] [\<lparr>offset = 4294967296\<rparr>, \<lparr>offset = 0\<rparr>]))))
   \<and> stco (example_track 1 () None [] [\<lparr>offset = 4294967296\<rparr>, \<lparr>offset = 0\<rparr>]) =
     Box ''stco'' (Some [0, 0, 0, 0, 0, 0, 0, 2, 0, 0, 0, 0, 0, 0, 0, 0]) None None None"
  by (simp add: stco_bytes example_track_def be_4)

subsection \<open>Sync sample box\<close>

text \<open>
  C2. Whenever the sample table is built (that is, whenever its sample description is), its
  children are the
  sample description, \<^verbatim>\<open>stts\<close>, the result of \<^verbatim>\<open>stss\<close>, \<^verbatim>\<open>stsc\<close>, \<^verbatim>\<open>stsz\<close> and the
  chunk-offset box. When every sample is a key frame \<^verbatim>\<open>stss\<close> gives no box and no child
  of the sample table has type \<^verbatim>\<open>stss\<close>. Otherwise the third child is an \<^verbatim>\<open>stss\<close> box
  whose entry count is the number of key-frame samples and whose entries are the 1-based
  indices of the key-frame samples, in ascending order.
\<close>

theorem stbl_sync_samples:
  assumes "stsd track = Inr description"
  shows "\<exists>ch. stbl track = Inr (Box ''stbl'' None (Some ch) None None)
     \<and> ch = [Some description, Some (stts track), stss track, Some (stsc track),
             Some (stsz track), Some (stco track)]
     \<and> (list_all (\<lambda>x. Sample.type x = key) (samples track) \<longrightarrow>
          stss track = None \<and> (\<forall>b. Some b \<in> set ch \<longrightarrow> Box.type b \<noteq> ''stss''))
     \<and> (\<not> list_all (\<lambda>x. Sample.type x = key) (samples track) \<longrightarrow>
          stss track = Some (Box ''stss'' (Some ([0, 0, 0, 0]
            @ be 4 (int (length (filter (\<lambda>x. Sample.type x = key) (samples track))))
            @ concat (map (\<lambda>i. be 4 (int i + 1))
                (filter (\<lambda>i. Sample.type (samples track ! i) = key)
                   [0..<length (samples track)]))))
            None None None))"
proof -
  let ?ch = "[Some description, Some (stts track), stss track, Some (stsc track),
             Some (stsz track), Some (stco track)]"
  have b: "stbl track = Inr (Box ''stbl'' None (Some ?ch) None None)"
    using assms by (simp add: stbl_def box_def)
  have t: "Box.type description = ''stsd''" "Box.type (stts track) = ''stts''"
    "Box.type (stsc track) = ''stsc''" "Box.type (stsz track) = ''stsz''"
    "Box.type (stco track) \<noteq> ''stss''"
    using assms
    by (simp_all add: stsd_type stts_def stsc_def stsz_def stco_def type_fullBox)
  have k: "\<forall>b. Some b \<in> set ?ch \<longrightarrow> Box.type b \<noteq> ''stss''" if "stss track = None"
    using that t by auto
  have a: "stss track = None" if "list_all (\<lambda>x. Sample.type x = key) (samples track)"
    using that by (simp add: stss_bytes)
  have p: "stss track = Some (Box ''stss'' (Some ([0, 0, 0, 0]
            @ be 4 (int (length (filter (\<lambda>x. Sample.type x = key) (samples track))))
            @ concat (map (\<lambda>i. be 4 (int i + 1))
                (filter (\<lambda>i. Sample.type (samples track ! i) = key)
                   [0..<length (samples track)]))))
            None None None)"
    if "\<not> list_all (\<lambda>x. Sample.type x = key) (samples track)"
    using that by (simp only: stss_bytes if_False)
  show ?thesis
    apply (rule exI [where x = ?ch])
    apply (intro conjI impI)
         apply (rule b)
        apply (rule refl)
       apply (erule a)
      apply (rule k)
      apply (erule a)
     apply (erule p)
    done
qed

text \<open>An AVC track with samples key, delta, key has an \<^verbatim>\<open>stss\<close> box with the two entries 1
  and 3 as the third child of its sample table; with three key frames the third child is
  absent.\<close>

theorem stbl_sync_samples_witness:
  "(\<exists>description. stbl (example_track 1 (video avc_info) (Some [1, 2, 3])
        [sample_at 0 1 key, sample_at 1 1 delta, sample_at 2 1 key] []) =
      Inr (Box ''stbl'' None (Some
        [Some description,
         Some (Box ''stts'' (Some [0, 0, 0, 0, 0, 0, 0, 0]) None None None),
         Some (Box ''stss'' (Some [0, 0, 0, 0, 0, 0, 0, 2, 0, 0, 0, 1, 0, 0, 0, 3])
           None None None),
         Some (Box ''stsc'' (Some [0, 0, 0, 0, 0, 0, 0, 0]) None None None),
         Some (Box ''stsz'' (Some [0, 0, 0, 0, 0, 0, 0, 0, 0, 0, 0, 3,
           0, 0, 0, 100, 0, 0, 0, 100, 0, 0, 0, 100]) None None None),
         Some (Box ''stco'' (Some [0, 0, 0, 0, 0, 0, 0, 0]) None None None)]) None None))
   \<and> (\<exists>description. stbl (example_track 1 (video avc_info) (Some [1, 2, 3])
        [sample_at 0 1 key, sample_at 1 1 key, sample_at 2 1 key] []) =
      Inr (Box ''stbl'' None (Some
        [Some description,
         Some (Box ''stts'' (Some [0, 0, 0, 0, 0, 0, 0, 0]) None None None),
         None,
         Some (Box ''stsc'' (Some [0, 0, 0, 0, 0, 0, 0, 0]) None None None),
         Some (Box ''stsz'' (Some [0, 0, 0, 0, 0, 0, 0, 0, 0, 0, 0, 3,
           0, 0, 0, 100, 0, 0, 0, 100, 0, 0, 0, 100]) None None None),
         Some (Box ''stco'' (Some [0, 0, 0, 0, 0, 0, 0, 0]) None None None)]) None None))"
proof -
  let ?mixed = "example_track 1 (video avc_info) (Some [1, 2, 3])
        [sample_at 0 1 key, sample_at 1 1 delta, sample_at 2 1 key] []"
  let ?keys = "example_track 1 (video avc_info) (Some [1, 2, 3])
        [sample_at 0 1 key, sample_at 1 1 key, sample_at 2 1 key] []"
  obtain d1 where d1: "stsd ?mixed = Inr d1"
    using stsd_video [of ?mixed avc_info] by (auto simp add: example_track_def)
  obtain d2 where d2: "stsd ?keys = Inr d2"
    using stsd_video [of ?keys avc_info] by (auto simp add: example_track_def)
  have m: "\<not> list_all (\<lambda>x. Sample.type x = key) (samples ?mixed)"
    by (simp add: example_track_def sample_at_def)
  have k: "list_all (\<lambda>x. Sample.type x = key) (samples ?keys)"
    by (simp add: example_track_def sample_at_def)
  have o: "stts t = Box ''stts'' (Some [0, 0, 0, 0, 0, 0, 0, 0]) None None None"
    "stsc t = Box ''stsc'' (Some [0, 0, 0, 0, 0, 0, 0, 0]) None None None"
    "stsz t = Box ''stsz'' (Some [0, 0, 0, 0, 0, 0, 0, 0, 0, 0, 0, 3,
           0, 0, 0, 100, 0, 0, 0, 100, 0, 0, 0, 100]) None None None"
    "stco t = Box ''stco'' (Some [0, 0, 0, 0, 0, 0, 0, 0]) None None None"
    if "t = example_track 1 (video avc_info) (Some [1, 2, 3])
        [sample_at 0 1 key, sample_at 1 1 k, sample_at 2 1 key] []" for t k
    using that
    by (simp_all add: stts_bytes stsc_bytes stsz_bytes stco_bytes example_track_def
        sample_at_def be_4)
  have e: "filter (\<lambda>i. Sample.type (samples ?mixed ! i) = key) [0..<length (samples ?mixed)]
      = [0, 2]"
    by (simp add: example_track_def sample_at_def)
  from stbl_sync_samples [OF d1] m
  have "stbl ?mixed = Inr (Box ''stbl'' None (Some
        [Some d1, Some (stts ?mixed), Some (Box ''stss''
           (Some [0, 0, 0, 0, 0, 0, 0, 2, 0, 0, 0, 1, 0, 0, 0, 3]) None None None),
         Some (stsc ?mixed), Some (stsz ?mixed), Some (stco ?mixed)]) None None)"
    by (simp add: e be_4) (simp add: example_track_def sample_at_def be_4)
  then have 1: "\<exists>description. stbl ?mixed = Inr (Box ''stbl'' None (Some
        [Some description,
         Some (Box ''stts'' (Some [0, 0, 0, 0, 0, 0, 0, 0]) None None None),
         Some (Box ''stss'' (Some [0, 0, 0, 0, 0, 0, 0, 2, 0, 0, 0, 1, 0, 0, 0, 3])
           None None None),
         Some (Box ''stsc'' (Some [0, 0, 0, 0, 0, 0, 0, 0]) None None None),
         Some (Box ''stsz'' (Some [0, 0, 0, 0, 0, 0, 0, 0, 0, 0, 0, 3,
           0, 0, 0, 100, 0, 0, 0, 100, 0, 0, 0, 100]) None None None),
         Some (Box ''stco'' (Some [0, 0, 0, 0, 0, 0, 0, 0]) None None None)]) None None)"
    by (simp only: o [OF refl]) blast
  from stbl_sync_samples [OF d2] k
  have "stbl ?keys = Inr (Box ''stbl'' None (Some
        [Some d2, Some (stts ?keys), None,
         Some (stsc ?keys), Some (stsz ?keys), Some (stco ?keys)]) None None)"
    by simp
  then have 2: "\<exists>description. stbl ?keys = Inr (Box ''stbl'' None (Some
        [Some description,
         Some (Box ''stts'' (Some [0, 0, 0, 0, 0, 0, 0, 0]) None None None),
         None,
         Some (Box ''stsc'' (Some [0, 0, 0, 0, 0, 0, 0, 0]) None None None),
         Some (Box ''stsz'' (Some [0, 0, 0, 0, 0, 0, 0, 0, 0, 0, 0, 3,
           0, 0, 0, 100, 0, 0, 0, 100, 0, 0, 0, 100]) None None None),
         Some (Box ''stco'' (Some [0, 0, 0, 0, 0, 0, 0, 0]) None None None)]) None None)"
    by (simp only: o [OF refl]) blast
  from 1 2 show ?thesis by (rule conjI)
qed

subsection \<open>Codec configuration boxes\<close>

text \<open>
  C3. The video sample description has exactly one child position. For an AVC, HEVC, VP9
  or AV1 track with \<^verbatim>\<open>codecPrivate\<close> present it holds the configuration box of the codec
  (\<^verbatim>\<open>avcC\<close>, \<^verbatim>\<open>hvcC\<close>, \<^verbatim>\<open>vpcC\<close>, \<^verbatim>\<open>av1C\<close>) whose content is the \<^verbatim>\<open>codecPrivate\<close>
  bytes themselves; with \<^verbatim>\<open>codecPrivate\<close> absent it holds no box at all.
\<close>

theorem video_configuration_box:
  "children (videoSampleDescription compressionType track) =
     Some [case codecPrivate track of
             None \<Rightarrow> None
           | Some cp \<Rightarrow> Some (Box
               (case VideoInfo.codec (info track) of
                  avc \<Rightarrow> ''avcC'' | hevc \<Rightarrow> ''hvcC'' | vp9 \<Rightarrow> ''vpcC'' | av1 \<Rightarrow> ''av1C'')
               (Some cp) None None None)]"
  by (rule videoSampleDescription_children)

text \<open>
  C4, as amended. For an AAC track whose \<^verbatim>\<open>codecPrivate\<close> has \<open>L\<close> bytes the \<^verbatim>\<open>esds\<close>
  content is the version and flags, the object-descriptor tag with its length byte, the ES
  id and flags, the ES-descriptor tag with its length byte, the fixed decoder configuration,
  the decoder-specific tag with its length byte followed by the \<^verbatim>\<open>codecPrivate\<close> bytes
  unchanged, and the fixed SL tag. The three length bytes are \<open>0x20 + L\<close>, \<open>0x12 + L\<close> and
  \<open>L\<close> in 8-bit arithmetic: the values of the first two are \<open>(0x20 + L) mod 256\<close> and
  \<open>(0x12 + L) mod 256\<close>, which are \<open>0x20 + L\<close> up to \<open>L = 223\<close> and \<open>0x12 + L\<close> up to
  \<open>L = 237\<close>.
\<close>

theorem esds_length_bytes:
  assumes "codecPrivate track = Some cp"
  shows "\<exists>cs. esds track = Inr (Box ''esds'' (Some cs) None None None)
     \<and> cs = [0, 0, 0, 0]
        @ [0x03, 0x80, 0x80, 0x80] @ [0x20 + of_nat (length cp)] @ [0, 1] @ [0]
        @ [0x04, 0x80, 0x80, 0x80] @ [0x12 + of_nat (length cp)] @ [0x40] @ [0x15] @ [0, 0, 0]
        @ [0, 1, 0xFC, 0x17] @ [0, 1, 0xFC, 0x17]
        @ [0x05, 0x80, 0x80, 0x80] @ [of_nat (length cp)] @ cp
        @ [0x06, 0x80, 0x80, 0x80] @ [0x01] @ [0x02]
     \<and> cs ! 8 = 0x20 + of_nat (length cp)
     \<and> cs ! 16 = 0x12 + of_nat (length cp)
     \<and> take (length cp) (drop 35 cs) = cp
     \<and> unat (cs ! 8) = (0x20 + length cp) mod 256
     \<and> unat (cs ! 16) = (0x12 + length cp) mod 256"
proof -
  have u: "unat (k + of_nat n :: 8 word) = (unat k + n) mod 256" for k n
    by (simp add: unat_word_ariths unat_of_nat mod_simps)
  show ?thesis
    using esds_bytes [OF assms] by (simp add: u)
qed

text \<open>The two-byte configuration of AAC-LC, 44.1 kHz, stereo: the length bytes are
  \<open>0x22\<close>, \<open>0x14\<close> and \<open>0x02\<close>.\<close>

theorem esds_length_bytes_witness:
  "esds (example_track 1 aac_info (Some [0x12, 0x10]) [] []) =
     Inr (Box ''esds'' (Some
       [0, 0, 0, 0, 0x03, 0x80, 0x80, 0x80, 0x22, 0, 1, 0,
        0x04, 0x80, 0x80, 0x80, 0x14, 0x40, 0x15, 0, 0, 0,
        0, 1, 0xFC, 0x17, 0, 1, 0xFC, 0x17,
        0x05, 0x80, 0x80, 0x80, 0x02, 0x12, 0x10,
        0x06, 0x80, 0x80, 0x80, 0x01, 0x02]) None None None)"
proof -
  have "codecPrivate (example_track 1 aac_info (Some [0x12, 0x10]) [] []) = Some [0x12, 0x10]"
    by (simp add: example_track_def)
  from esds_length_bytes [OF this] show ?thesis
    by auto
qed

text \<open>The claim as stated fails from \<open>L = 224\<close> on: with 224 bytes of \<^verbatim>\<open>codecPrivate\<close> the
  sum \<open>0x20 + L\<close> is 256 and the object-descriptor length byte is 0.\<close>

theorem esds_length_bytes_counterexample:
  "0x20 + length (replicate 224 (0 :: 8 word)) = 256
   \<and> esds (example_track 1 aac_info (Some (replicate 224 0)) [] []) =
       Inr (Box ''esds'' (Some (
         [0, 0, 0, 0, 0x03, 0x80, 0x80, 0x80, 0x00, 0, 1, 0,
          0x04, 0x80, 0x80, 0x80, 0xF2, 0x40, 0x15, 0, 0, 0,
          0, 1, 0xFC, 0x17, 0, 1, 0xFC, 0x17,
          0x05, 0x80, 0x80, 0x80, 0xE0]
         @ replicate 224 0
         @ [0x06, 0x80, 0x80, 0x80, 0x01, 0x02])) None None None)"
proof -
  have "codecPrivate (example_track 1 aac_info (Some (replicate 224 0)) [] [])
      = Some (replicate 224 0)"
    by (simp add: example_track_def)
  from esds_bytes [OF this] show ?thesis
    by simp
qed

subsection \<open>Movie header\<close>

text \<open>
  C5, as amended. The duration field of \<^verbatim>\<open>mvhd\<close> (bytes 16 to 19 of its content) is the
  4-byte encoding of \<^verbatim>\<open>intoTimescale(m, GLOBAL_TIMESCALE)\<close>, where \<open>m\<close> is the maximum of 0
  and of the end times (timestamp plus duration of the last sample) of the tracks that have
  a sample. So it is the converted maximum end time when that maximum is not negative, and
  the conversion of 0 when no track has a sample.
\<close>

theorem mvhd_duration:
  "\<exists>cs. contents (mvhd intoTimescale GLOBAL_TIMESCALE identityMatrixBytes creationTime tracks)
         = Some cs
     \<and> take 4 (drop 16 cs)
         = be 4 (intoTimescale (Max (insert 0 (track_ends tracks))) GLOBAL_TIMESCALE)
     \<and> (track_ends tracks \<noteq> {} \<and> 0 \<le> Max (track_ends tracks) \<longrightarrow>
          take 4 (drop 16 cs) = be 4 (intoTimescale (Max (track_ends tracks)) GLOBAL_TIMESCALE))
     \<and> (track_ends tracks = {} \<longrightarrow>
          take 4 (drop 16 cs) = be 4 (intoTimescale 0 GLOBAL_TIMESCALE))"
proof -
  let ?E = "track_ends tracks"
  let ?d = "be 4 (intoTimescale (Max (insert 0 ?E)) GLOBAL_TIMESCALE)"
  obtain cs where c:
    "contents (mvhd intoTimescale GLOBAL_TIMESCALE identityMatrixBytes creationTime tracks)
      = Some cs" and f: "take 4 (drop 16 cs) = ?d"
    using map_option_SomeD [OF mvhd_duration_field] by fastforce
  have fin: "finite ?E"
    by (simp add: track_ends_def)
  have pos: "Max (insert 0 ?E) = Max ?E" if "?E \<noteq> {}" "0 \<le> Max ?E"
    using that fin by (simp add: max_def)
  have emp: "Max (insert 0 ?E) = 0" if "?E = {}"
    using that by simp
  have "take 4 (drop 16 cs) = ?d
     \<and> (?E \<noteq> {} \<and> 0 \<le> Max ?E \<longrightarrow>
          take 4 (drop 16 cs) = be 4 (intoTimescale (Max ?E) GLOBAL_TIMESCALE))
     \<and> (?E = {} \<longrightarrow>
          take 4 (drop 16 cs) = be 4 (intoTimescale 0 GLOBAL_TIMESCALE))"
    using pos emp by (simp only: f) simp
  with c show ?thesis by blast
qed

text \<open>Three tracks, the second without samples, with end times 1 and 3 seconds: the
  duration is 3000 (\<open>0x0BB8\<close>) in a global timescale of 1000. A movie whose only track has
  no sample has duration 0.\<close>

theorem mvhd_duration_witness:
  "(\<exists>cs. contents (mvhd rescale 1000 (Arr []) 0
        [example_track 1 () None [sample_at 0 1 key] [],
         example_track 3 () None [] [],
         example_track 2 () None [sample_at 0 1 key, sample_at 1 2 key] []]) = Some cs
      \<and> take 4 (drop 16 cs) = [0, 0, 0x0B, 0xB8])
   \<and> (\<exists>cs. contents (mvhd rescale 1000 (Arr []) 0 [example_track 1 () None [] []]) = Some cs
      \<and> take 4 (drop 16 cs) = [0, 0, 0, 0])"
proof -
  let ?ts = "[example_track 1 () None [sample_at 0 1 key] [],
         example_track 3 () None [] [],
         example_track 2 () None [sample_at 0 1 key, sample_at 1 2 key] []]"
  let ?us = "[example_track 1 () None [] []]"
  have e: "track_ends ?ts = {1, 3}" "track_ends ?us = {}"
    by (simp_all add: track_ends_def example_track_def sample_at_def)
  have b: "be 4 (rescale 3 1000) = [0, 0, 0x0B, 0xB8]" "be 4 (rescale 0 1000) = [0, 0, 0, 0]"
    by (simp_all add: rescale_def be_4)
  from mvhd_duration [of rescale 1000 "Arr []" 0 ?ts]
  have 1: "\<exists>cs. contents (mvhd rescale 1000 (Arr []) 0 ?ts) = Some cs
      \<and> take 4 (drop 16 cs) = [0, 0, 0x0B, 0xB8]"
    by (simp only: e) (simp add: b del: be.simps)
  from mvhd_duration [of rescale 1000 "Arr []" 0 ?us]
  have 2: "\<exists>cs. contents (mvhd rescale 1000 (Arr []) 0 ?us) = Some cs
      \<and> take 4 (drop 16 cs) = [0, 0, 0, 0]"
    by (simp only: e) (simp add: b del: be.simps)
  from 1 2 show ?thesis by (rule conjI)
qed

text \<open>The claim as stated fails when every end time is negative: for one track whose last
  sample has timestamp -2 and duration 1 the maximum end time is -1, which converts to
  -1000 (\<open>FF FF FC 18\<close> in 4 bytes), but the duration field is 0.\<close>

theorem mvhd_duration_counterexample:
  "track_ends [example_track 1 () None [sample_at (- 2) 1 key] []] = {- 1}
   \<and> map_option (take 4 \<circ> drop 16)
        (contents (mvhd rescale 1000 (Arr []) 0
           [example_track 1 () None [sample_at (- 2) 1 key] []])) = Some [0, 0, 0, 0]
   \<and> be 4 (rescale (Max (track_ends [example_track 1 () None [sample_at (- 2) 1 key] []])) 1000)
      = [0xFF, 0xFF, 0xFC, 0x18]"
proof -
  have e: "track_ends [example_track 1 () None [sample_at (- 2) 1 key] []] = {- 1}"
    by (simp add: track_ends_def example_track_def sample_at_def)
  show ?thesis
    by (simp only: mvhd_duration_field e) (simp add: rescale_def be_4)
qed




subsection \<open>Opus specific box\<close>

text \<open>
  C8, as amended. For an Opus track the \<^verbatim>\<open>dOps\<close> content is, in order: the version byte
  0, the channel count in one byte, the pre-skip 3840 in two bytes, the \<^verbatim>\<open>sampleRate\<close> as
  a 4-byte big-endian integer, the output gain 0 in two bytes (8.8 fixed point) and the
  channel mapping family 0 in one byte; the box has no children. The channel-count byte is
  \<^verbatim>\<open>numberOfChannels\<close> modulo 256 (the number itself from 0 to 255) and the sample-rate
  field is \<^verbatim>\<open>sampleRate\<close> modulo \<open>2^32\<close>.
\<close>

theorem dOps_content:
  "dOps track = Box ''dOps''
     (Some (be 1 0 @ be 1 (numberOfChannels (info track)) @ be 2 3840
            @ be 4 (sampleRate (info track)) @ be 2 0 @ be 1 0))
     None None None
   \<and> (\<exists>cs. contents (dOps track) = Some cs \<and> length cs = 11
        \<and> unat (cs ! 1) = nat (numberOfChannels (info track) mod 256)
        \<and> be_val (take 4 (drop 4 cs)) = nat (sampleRate (info track) mod 2 ^ 32))"
proof -
  let ?ch = "numberOfChannels (info track)"
  let ?sr = "sampleRate (info track)"
  let ?cs = "be 1 0 @ be 1 ?ch @ be 2 3840 @ be 4 ?sr @ be 2 0 @ be 1 0"
  have b: "dOps track = Box ''dOps'' (Some ?cs) None None None"
    by (rule dOps_bytes)
  then have k: "contents (dOps track) = Some ?cs"
    by (simp only: Box.sel)
  have l: "length ?cs = 11"
    by (simp only: length_append length_be)
  have c: "?cs ! 1 = word_of_int ?ch"
    by (simp add: be_2 be_4)
  have "unat (word_of_int ?ch :: 8 word) = nat (?ch mod 256)"
    by (simp add: unat_eq_nat_uint uint_word_of_int)
  with c have u: "unat (?cs ! 1) = nat (?ch mod 256)"
    by (simp only:)
  have t: "take 4 (drop 4 ?cs) = be 4 ?sr"
    by (simp add: be_2 be_4)
  have "be_val (be 4 ?sr) = nat (?sr mod 2 ^ 32)"
    using be_val_be [of 4 ?sr] by simp
  with t have v: "be_val (take 4 (drop 4 ?cs)) = nat (?sr mod 2 ^ 32)"
    by (simp only:)
  have "\<exists>cs. contents (dOps track) = Some cs \<and> length cs = 11
        \<and> unat (cs ! 1) = nat (?ch mod 256)
        \<and> be_val (take 4 (drop 4 cs)) = nat (?sr mod 2 ^ 32)"
  proof (rule exI [where x = ?cs], intro conjI)
    show "contents (dOps track) = Some ?cs" by (rule k)
    show "length ?cs = 11" by (rule l)
    show "unat (?cs ! 1) = nat (?ch mod 256)" by (rule u)
    show "be_val (take 4 (drop 4 ?cs)) = nat (?sr mod 2 ^ 32)" by (rule v)
  qed
  with b show ?thesis by (rule conjI)
qed

text \<open>Two channels at 48 kHz: \<open>00 02 0F 00 00 00 BB 80 00 00 00\<close>.\<close>

theorem dOps_content_witness:
  "dOps (example_track 1 opus_info None [] []) = Box ''dOps''
     (Some [0, 2, 0x0F, 0x00, 0x00, 0x00, 0xBB, 0x80, 0, 0, 0]) None None None"
proof -
  from dOps_content [of "example_track 1 opus_info None [] []"]
  have "dOps (example_track 1 opus_info None [] []) = Box ''dOps''
     (Some (be 1 0 @ be 1 (numberOfChannels (info (example_track 1 opus_info None [] [])))
            @ be 2 3840
            @ be 4 (sampleRate (info (example_track 1 opus_info None [] []))) @ be 2 0 @ be 1 0))
     None None None"
    by (rule conjunct1)
  then show ?thesis
    by (simp add: example_track_def opus_info_def be_2 be_4)
qed

text \<open>The claim as stated fails from 256 channels on: with 258 channels the channel-count
  byte is \<open>02\<close>.\<close>

theorem dOps_content_counterexample:
  "dOps (example_track 1 \<lparr>numberOfChannels = 258, sampleRate = 48000, codec = opus\<rparr> None [] [])
     = Box ''dOps'' (Some [0, 2, 0x0F, 0x00, 0x00, 0x00, 0xBB, 0x80, 0, 0, 0]) None None None"
  by (simp add: dOps_bytes example_track_def be_2 be_4)

subsection \<open>Time-to-sample and sample-to-chunk boxes\<close>

text \<open>
  C9, as amended. The \<^verbatim>\<open>stts\<close> content is the version and flags, the 4-byte encoding of
  the length of \<^verbatim>\<open>timeToSampleTable\<close>, and then for each entry of the table, in the order
  of the table, the 4-byte big-endian encodings of its \<^verbatim>\<open>sampleCount\<close> and
  \<^verbatim>\<open>sampleDelta\<close>. The \<^verbatim>\<open>stsc\<close> content is the version and flags, the 4-byte encoding
  of the length of \<^verbatim>\<open>compactlyCodedChunkTable\<close>, and then for each entry, in order, the
  4-byte encodings of its \<^verbatim>\<open>firstChunk\<close> and \<^verbatim>\<open>samplesPerChunk\<close> followed by the
  sample-description index 1. A 4-byte encoding holds its value modulo \<open>2^32\<close>: the value
  itself when it lies between 0 and \<open>2^32 - 1\<close>.
\<close>

theorem stts_stsc_verbatim:
  "stts track = Box ''stts'' (Some ([0, 0, 0, 0]
       @ be 4 (int (length (timeToSampleTable track)))
       @ concat (map (\<lambda>x. be 4 (sampleCount x) @ be 4 (sampleDelta x))
           (timeToSampleTable track))))
     None None None
   \<and> stsc track = Box ''stsc'' (Some ([0, 0, 0, 0]
       @ be 4 (int (length (compactlyCodedChunkTable track)))
       @ concat (map (\<lambda>x. be 4 (firstChunk x) @ be 4 (samplesPerChunk x) @ [0, 0, 0, 1])
           (compactlyCodedChunkTable track))))
     None None None
   \<and> (\<forall>v. be_val (be 4 v) = nat (v mod 2 ^ 32))"
proof (intro conjI allI)
  show "stts track = Box ''stts'' (Some ([0, 0, 0, 0]
       @ be 4 (int (length (timeToSampleTable track)))
       @ concat (map (\<lambda>x. be 4 (sampleCount x) @ be 4 (sampleDelta x))
           (timeToSampleTable track))))
     None None None"
    by (rule stts_bytes)
  show "stsc track = Box ''stsc'' (Some ([0, 0, 0, 0]
       @ be 4 (int (length (compactlyCodedChunkTable track)))
       @ concat (map (\<lambda>x. be 4 (firstChunk x) @ be 4 (samplesPerChunk x) @ [0, 0, 0, 1])
           (compactlyCodedChunkTable track))))
     None None None"
    by (rule stsc_bytes)
  show "be_val (be 4 v) = nat (v mod 2 ^ 32)" for v
    using be_val_be [of 4 v] by simp
qed

text \<open>The claim as stated fails for a value outside 32 bits: the pair with
  \<^verbatim>\<open>sampleCount\<close> 1 and \<^verbatim>\<open>sampleDelta\<close> \<open>2^32 + 2\<close> is written as
  \<open>00 00 00 01 00 00 00 02\<close>, whose second field reads back as 2.\<close>

theorem stts_stsc_verbatim_counterexample:
  "stts ((example_track 1 () None [] [])
       \<lparr>timeToSampleTable := [\<lparr>sampleCount = 1, sampleDelta = 4294967298\<rparr>]\<rparr>)
     = Box ''stts'' (Some [0, 0, 0, 0, 0, 0, 0, 1, 0, 0, 0, 1, 0, 0, 0, 2]) None None None
   \<and> be_val [0, 0, 0, 2] = 2"
  by (simp add: stts_bytes example_track_def be_4 be_val_def)

subsection \<open>The AAC descriptor needs the codec private data\<close>

text \<open>
  C10. For an AAC track, \<^verbatim>\<open>esds\<close> reads \<^verbatim>\<open>codecPrivate\<close> without a guard: when
  \<^verbatim>\<open>codecPrivate\<close> is absent \<^verbatim>\<open>esds\<close> and with it the sound sample description throw a
  \<^verbatim>\<open>TypeError\<close> and give no box; when it is present both return, and the sample
  description has the \<^verbatim>\<open>esds\<close> box as its only child. The video sample description of a
  track without \<^verbatim>\<open>codecPrivate\<close> returns, with no configuration box.
\<close>

theorem esds_requires_codecPrivate:
  assumes "AudioInfo.codec (info track) = aac"
  shows "(codecPrivate track = None \<longrightarrow>
           esds track = Inl TypeError
           \<and> soundSampleDescription compressionType track = Inl TypeError)
     \<and> (\<forall>cp. codecPrivate track = Some cp \<longrightarrow>
           (\<exists>config description. esds track = Inr config \<and> Box.type config = ''esds''
              \<and> soundSampleDescription compressionType track = Inr description
              \<and> children description = Some [Some config]))
     \<and> (codecPrivate videoTrack = None \<longrightarrow>
           children (videoSampleDescription videoType videoTrack) = Some [None])"
proof (intro conjI impI allI)
  assume "codecPrivate track = None"
  then show "esds track = Inl TypeError" by (simp add: esds_def)
  with assms show "soundSampleDescription compressionType track = Inl TypeError"
    by (simp add: soundSampleDescription_def)
next
  fix cp
  assume "codecPrivate track = Some cp"
  then obtain config where c: "esds track = Inr config" "Box.type config = ''esds''"
    by (simp add: esds_def type_fullBox)
  with assms have "\<exists>description. soundSampleDescription compressionType track = Inr description
      \<and> children description = Some [Some config]"
    by (simp add: soundSampleDescription_def children_box)
  with c show "\<exists>config description. esds track = Inr config \<and> Box.type config = ''esds''
      \<and> soundSampleDescription compressionType track = Inr description
      \<and> children description = Some [Some config]"
    by blast
next
  assume "codecPrivate videoTrack = None"
  then show "children (videoSampleDescription videoType videoTrack) = Some [None]"
    by (simp add: videoSampleDescription_children)
qed

text \<open>An AAC track without \<^verbatim>\<open>codecPrivate\<close> has no sample description, nor has the sample
  description box \<^verbatim>\<open>stsd\<close>; an AAC track with a two-byte \<^verbatim>\<open>codecPrivate\<close> has one, with its
  \<^verbatim>\<open>esds\<close> child; an AVC track without \<^verbatim>\<open>codecPrivate\<close> has one, with no child box.\<close>

theorem esds_requires_codecPrivate_witness:
  "soundSampleDescription ''mp4a'' (example_track 1 aac_info None [] []) = Inl TypeError
   \<and> stsd (example_track 1 (audio aac_info) None [] []) = Inl TypeError
   \<and> (\<exists>config description.
         esds (example_track 1 aac_info (Some [0x12, 0x10]) [] []) = Inr config
       \<and> Box.type config = ''esds''
       \<and> soundSampleDescription ''mp4a'' (example_track 1 aac_info (Some [0x12, 0x10]) [] [])
           = Inr description
       \<and> children description = Some [Some config])
   \<and> children (videoSampleDescription ''avc1'' (example_track 1 avc_info None [] []))
       = Some [None]"
proof -
  let ?none = "example_track 1 aac_info None [] []"
  let ?some = "example_track 1 aac_info (Some [0x12, 0x10]) [] []"
  let ?video = "example_track 1 avc_info None [] []"
  have a: "AudioInfo.codec (info ?none) = aac" "AudioInfo.codec (info ?some) = aac"
    by (simp_all add: example_track_def aac_info_def)
  have n: "codecPrivate ?none = None" "codecPrivate ?video = None"
    by (simp_all add: example_track_def)
  have s: "codecPrivate ?some = Some [0x12, 0x10]"
    by (simp add: example_track_def)
  have c: "as_track aac_info (example_track 1 (audio aac_info) None [] []) = ?none"
    by (simp add: as_track_def example_track_def)
  from esds_requires_codecPrivate [OF a(1), of "''mp4a''" ?video "''avc1''"] n
  have 1: "soundSampleDescription ''mp4a'' ?none = Inl TypeError"
    and 4: "children (videoSampleDescription ''avc1'' ?video) = Some [None]"
    by simp_all
  from 1 c have 2: "stsd (example_track 1 (audio aac_info) None [] []) = Inl TypeError"
    by (simp add: stsd_def example_track_def aac_info_def)
  from esds_requires_codecPrivate [OF a(2), of "''mp4a''" ?video "''avc1''"] s
  have 3: "\<exists>config description. esds ?some = Inr config \<and> Box.type config = ''esds''
       \<and> soundSampleDescription ''mp4a'' ?some = Inr description
       \<and> children description = Some [Some config]"
    by simp
  from 1 2 3 4 show ?thesis by (intro conjI)
qed

end
